theory Spec2Isabelle
  imports Main "HOL-Library.Word"
begin

unbundle bit_operations_syntax

section \<open>common.h: capability attributes and opcodes\<close>

type_synonym uint32_t = "32 word"

text \<open>The seven \<open>OSAX_ATTRIB_*\<close> macros are integer constants of C type \<open>int\<close>.\<close>

definition OSAX_ATTRIB_DOCK_SPACES :: int where "OSAX_ATTRIB_DOCK_SPACES = 0x01"
definition OSAX_ATTRIB_DPPM :: int where "OSAX_ATTRIB_DPPM = 0x02"
definition OSAX_ATTRIB_ADD_SPACE :: int where "OSAX_ATTRIB_ADD_SPACE = 0x04"
definition OSAX_ATTRIB_REM_SPACE :: int where "OSAX_ATTRIB_REM_SPACE = 0x08"
definition OSAX_ATTRIB_MOV_SPACE :: int where "OSAX_ATTRIB_MOV_SPACE = 0x10"
definition OSAX_ATTRIB_SET_WINDOW :: int where "OSAX_ATTRIB_SET_WINDOW = 0x20"
definition OSAX_ATTRIB_ANIM_TIME :: int where "OSAX_ATTRIB_ANIM_TIME = 0x40"

definition OSAX_ATTRIB_ALL :: int where
  "OSAX_ATTRIB_ALL = (OSAX_ATTRIB_DOCK_SPACES OR
                      OSAX_ATTRIB_DPPM OR
                      OSAX_ATTRIB_ADD_SPACE OR
                      OSAX_ATTRIB_REM_SPACE OR
                      OSAX_ATTRIB_MOV_SPACE OR
                      OSAX_ATTRIB_SET_WINDOW OR
                      OSAX_ATTRIB_ANIM_TIME)"

text \<open>The macros in the order of their definition.\<close>

definition osax_attribs :: "int list" where
  "osax_attribs = [OSAX_ATTRIB_DOCK_SPACES, OSAX_ATTRIB_DPPM, OSAX_ATTRIB_ADD_SPACE,
                   OSAX_ATTRIB_REM_SPACE, OSAX_ATTRIB_MOV_SPACE, OSAX_ATTRIB_SET_WINDOW,
                   OSAX_ATTRIB_ANIM_TIME]"

text \<open>\<open>disjoint_bits xs\<close>: no two entries of \<open>xs\<close> have a bit in common.\<close>

fun disjoint_from :: "int \<Rightarrow> int list \<Rightarrow> bool" where
  "disjoint_from x [] = True"
| "disjoint_from x (y # ys) = (x AND y = 0 \<and> disjoint_from x ys)"

fun disjoint_bits :: "int list \<Rightarrow> bool" where
  "disjoint_bits [] = True"
| "disjoint_bits (x # xs) = (disjoint_from x xs \<and> disjoint_bits xs)"

datatype sa_opcode =
    SA_OPCODE_HANDSHAKE
  | SA_OPCODE_SPACE_FOCUS
  | SA_OPCODE_SPACE_CREATE
  | SA_OPCODE_SPACE_DESTROY
  | SA_OPCODE_SPACE_MOVE
  | SA_OPCODE_WINDOW_MOVE
  | SA_OPCODE_WINDOW_OPACITY
  | SA_OPCODE_WINDOW_OPACITY_FADE
  | SA_OPCODE_WINDOW_LAYER
  | SA_OPCODE_WINDOW_STICKY
  | SA_OPCODE_WINDOW_SHADOW
  | SA_OPCODE_WINDOW_FOCUS
  | SA_OPCODE_WINDOW_SCALE
  | SA_OPCODE_WINDOW_SWAP_PROXY_IN
  | SA_OPCODE_WINDOW_SWAP_PROXY_OUT
  | SA_OPCODE_WINDOW_ORDER
  | SA_OPCODE_WINDOW_ORDER_IN
  | SA_OPCODE_WINDOW_LIST_TO_SPACE
  | SA_OPCODE_WINDOW_TO_SPACE
  | SA_OPCODE_WINDOW_RESIZE
  | SA_OPCODE_WINDOW_SET_FRAME
  | SA_OPCODE_WINDOW_GET_OPACITY
  | SA_OPCODE_WINDOW_GET_FRAME
  | SA_OPCODE_WINDOW_IS_STICKY
  | SA_OPCODE_WINDOW_GET_LAYER
  | SA_OPCODE_WINDOW_MINIMIZE
  | SA_OPCODE_WINDOW_UNMINIMIZE
  | SA_OPCODE_WINDOW_IS_MINIMIZED
  | SA_OPCODE_DISPLAY_GET_COUNT
  | SA_OPCODE_DISPLAY_GET_LIST

text \<open>The numeric value each enumerator of \<open>enum sa_opcode\<close> is given.\<close>

fun sa_opcode_value :: "sa_opcode \<Rightarrow> int" where
  "sa_opcode_value SA_OPCODE_HANDSHAKE = 0x01"
| "sa_opcode_value SA_OPCODE_SPACE_FOCUS = 0x02"
| "sa_opcode_value SA_OPCODE_SPACE_CREATE = 0x03"
| "sa_opcode_value SA_OPCODE_SPACE_DESTROY = 0x04"
| "sa_opcode_value SA_OPCODE_SPACE_MOVE = 0x05"
| "sa_opcode_value SA_OPCODE_WINDOW_MOVE = 0x06"
| "sa_opcode_value SA_OPCODE_WINDOW_OPACITY = 0x07"
| "sa_opcode_value SA_OPCODE_WINDOW_OPACITY_FADE = 0x08"
| "sa_opcode_value SA_OPCODE_WINDOW_LAYER = 0x09"
| "sa_opcode_value SA_OPCODE_WINDOW_STICKY = 0x0A"
| "sa_opcode_value SA_OPCODE_WINDOW_SHADOW = 0x0B"
| "sa_opcode_value SA_OPCODE_WINDOW_FOCUS = 0x0C"
| "sa_opcode_value SA_OPCODE_WINDOW_SCALE = 0x0D"
| "sa_opcode_value SA_OPCODE_WINDOW_SWAP_PROXY_IN = 0x0E"
| "sa_opcode_value SA_OPCODE_WINDOW_SWAP_PROXY_OUT = 0x0F"
| "sa_opcode_value SA_OPCODE_WINDOW_ORDER = 0x10"
| "sa_opcode_value SA_OPCODE_WINDOW_ORDER_IN = 0x11"
| "sa_opcode_value SA_OPCODE_WINDOW_LIST_TO_SPACE = 0x12"
| "sa_opcode_value SA_OPCODE_WINDOW_TO_SPACE = 0x13"
| "sa_opcode_value SA_OPCODE_WINDOW_RESIZE = 0x14"
| "sa_opcode_value SA_OPCODE_WINDOW_SET_FRAME = 0x15"
| "sa_opcode_value SA_OPCODE_WINDOW_GET_OPACITY = 0x16"
| "sa_opcode_value SA_OPCODE_WINDOW_GET_FRAME = 0x17"
| "sa_opcode_value SA_OPCODE_WINDOW_IS_STICKY = 0x18"
| "sa_opcode_value SA_OPCODE_WINDOW_GET_LAYER = 0x19"
| "sa_opcode_value SA_OPCODE_WINDOW_MINIMIZE = 0x1A"
| "sa_opcode_value SA_OPCODE_WINDOW_UNMINIMIZE = 0x1B"
| "sa_opcode_value SA_OPCODE_WINDOW_IS_MINIMIZED = 0x1C"
| "sa_opcode_value SA_OPCODE_DISPLAY_GET_COUNT = 0x1D"
| "sa_opcode_value SA_OPCODE_DISPLAY_GET_LIST = 0x1E"

section \<open>util.h: socket and system utilities\<close>

text \<open>
  Constants of the system header \<open>sys/socket.h\<close>: the address family and socket
  type passed to \<open>socket\<close>, and the \<open>how\<close> argument of \<open>shutdown\<close> that closes both
  the read and the write direction.
\<close>

definition AF_UNIX :: int where "AF_UNIX = 1"
definition SOCK_STREAM :: int where "SOCK_STREAM = 1"
definition SHUT_RD :: int where "SHUT_RD = 0"
definition SHUT_WR :: int where "SHUT_WR = 1"
definition SHUT_RDWR :: int where "SHUT_RDWR = 2"

text \<open>
  \<open>struct sockaddr_un\<close>: \<open>sun_path\<close> is a \<open>char\<close> array of fixed size; the list holds
  its bytes, so \<open>sizeof(sun_path)\<close> is its length.
\<close>

record sockaddr_un =
  sun_family :: int
  sun_path :: "char list"

definition sizeof_sun_path :: "sockaddr_un \<Rightarrow> nat" where
  "sizeof_sun_path a = length (sun_path a)"

text \<open>\<open>sizeof(struct sockaddr_un)\<close>: two bytes of header before the path array.\<close>

definition sizeof_sockaddr_un :: "sockaddr_un \<Rightarrow> nat" where
  "sizeof_sockaddr_un a = 2 + sizeof_sun_path a"

text \<open>
  The system calls util.h makes, and the kernel they go to. The kernel keeps the calls
  made so far; what it answers to a call (the return value, and the \<open>errno\<close> it sets when
  the call fails with \<open>-1\<close>) is a function of the calls before it and the call itself.
\<close>

datatype syscall =
    Sys_socket int int int
  | Sys_connect int sockaddr_un nat
  | Sys_shutdown int int
  | Sys_close int

record kernel =
  calls :: "syscall list"
  errno :: int
  respond :: "syscall list \<Rightarrow> syscall \<Rightarrow> int \<times> int"

definition sys :: "syscall \<Rightarrow> kernel \<Rightarrow> int \<times> kernel" where
  "sys c k =
     (let (r, e) = respond k (calls k) c
      in (r, k\<lparr>calls := calls k @ [c], errno := (if r = -1 then e else errno k)\<rparr>))"

definition socket_open :: "kernel \<Rightarrow> bool \<times> int \<times> kernel" where
  "socket_open k =
     (let (sockfd, k') = sys (Sys_socket AF_UNIX SOCK_STREAM 0) k
      in (sockfd \<noteq> -1, sockfd, k'))"

text \<open>
  A C string held in memory is the bytes before the first NUL.
\<close>

definition NUL :: char where "NUL = CHR 0x00"

definition c_string :: "char list \<Rightarrow> string" where
  "c_string mem = takeWhile (\<lambda>c. c \<noteq> NUL) mem"

text \<open>
  \<open>snprintf(buf, n, "%s", s)\<close> of the C library: the stores it makes into \<open>buf\<close>, as
  (index, byte) pairs in order. With \<open>n = 0\<close> nothing is stored; otherwise at most
  \<open>n - 1\<close> bytes of the string and then a terminating NUL. Its return value (the
  length of the whole string) is not used by the caller.
\<close>

definition snprintf_s :: "nat \<Rightarrow> char list \<Rightarrow> (nat \<times> char) list" where
  "snprintf_s n s =
     (if n = 0 then [] else enumerate 0 (take (n - 1) (c_string s) @ [NUL]))"

text \<open>
  Storing into an array: a store at an index outside the array is a buffer overflow,
  the value \<open>None\<close>.
\<close>

fun store_all :: "char list \<Rightarrow> (nat \<times> char) list \<Rightarrow> char list option" where
  "store_all buf [] = Some buf"
| "store_all buf ((i, c) # ws) =
     (if i < length buf then store_all (buf[i := c]) ws else None)"

text \<open>
  Lines 20 to 23 of \<open>socket_connect\<close>: the address structure handed to \<open>connect\<close>. The
  argument \<open>socket_address\<close> is the local variable as it is found on the stack, not
  initialised.
\<close>

definition socket_connect_address :: "char list \<Rightarrow> sockaddr_un \<Rightarrow> sockaddr_un option" where
  "socket_connect_address socket_path socket_address =
     (let a = socket_address\<lparr>sun_family := AF_UNIX\<rparr>
      in case store_all (sun_path a) (snprintf_s (sizeof_sun_path a) socket_path) of
           None \<Rightarrow> None
         | Some p \<Rightarrow> Some (a\<lparr>sun_path := p\<rparr>))"

definition socket_connect ::
    "int \<Rightarrow> char list \<Rightarrow> sockaddr_un \<Rightarrow> kernel \<Rightarrow> (bool \<times> kernel) option" where
  "socket_connect sockfd socket_path socket_address k =
     (case socket_connect_address socket_path socket_address of
        None \<Rightarrow> None
      | Some a \<Rightarrow>
          (let (r, k') = sys (Sys_connect sockfd a (sizeof_sockaddr_un a)) k
           in Some (r \<noteq> -1, k')))"

definition socket_close :: "int \<Rightarrow> kernel \<Rightarrow> kernel" where
  "socket_close sockfd k =
     (let (r1, k1) = sys (Sys_shutdown sockfd SHUT_RDWR) k;
          (r2, k2) = sys (Sys_close sockfd) k1
      in k2)"

text \<open>
  The credentials of the calling process: \<open>getuid\<close> returns the real user id,
  \<open>geteuid\<close> the effective one; both always succeed.
\<close>

record credentials =
  real_uid :: uint32_t
  effective_uid :: uint32_t

definition getuid :: "credentials \<Rightarrow> uint32_t" where
  "getuid p = real_uid p"

definition geteuid :: "credentials \<Rightarrow> uint32_t" where
  "geteuid p = effective_uid p"

definition is_root :: "credentials \<Rightarrow> bool" where
  "is_root p = (getuid p = 0 \<or> geteuid p = 0)"

text \<open>\<open>string_equals\<close>: a pointer is \<open>None\<close> when it is \<open>NULL\<close>.\<close>

definition string_equals :: "string option \<Rightarrow> string option \<Rightarrow> bool" where
  "string_equals a b =
     (case (a, b) of (Some x, Some y) \<Rightarrow> x = y | _ \<Rightarrow> False)"

section \<open>cli.c: the command-line tool\<close>

subsection \<open>Output and process state\<close>

text \<open>
  What the program prints is kept as the sequence of its \<open>printf\<close> calls: the stream,
  the format string and the arguments. A \<open>char *\<close> argument that is \<open>NULL\<close> is \<open>None\<close>.
\<close>

datatype stream = Stdout | Stderr

datatype printf_arg = Arg_s "string option" | Arg_d int

datatype out_event = Printf stream string "printf_arg list"

text \<open>The UTF-8 bytes of the three symbols the format strings use.\<close>

definition check_mark :: string where
  "check_mark = [CHR 0xE2, CHR 0x9C, CHR 0x93]"

definition ballot_x :: string where
  "ballot_x = [CHR 0xE2, CHR 0x9C, CHR 0x97]"

definition warning_sign :: string where
  "warning_sign = [CHR 0xE2, CHR 0x9A, CHR 0xA0]"

text \<open>
  The process-wide state: the flag \<open>g_verbose\<close>, whether the library holds a log sink,
  and the output so far. \<open>writes\<close> records every assignment to the first two after
  their initialisation, in program order.
\<close>

datatype global_write = Write_g_verbose bool | Write_log_sink

record cli_state =
  g_verbose :: bool
  log_sink :: bool
  writes :: "global_write list"
  out :: "out_event list"

text \<open>The state at program start: \<open>static bool g_verbose = false\<close>, no sink, no output.\<close>

definition initial_state :: cli_state where
  "initial_state = \<lparr>g_verbose = False, log_sink = False, writes = [], out = []\<rparr>"

definition set_g_verbose :: "bool \<Rightarrow> cli_state \<Rightarrow> cli_state" where
  "set_g_verbose b st = st\<lparr>g_verbose := b, writes := writes st @ [Write_g_verbose b]\<rparr>"

definition fprintf :: "stream \<Rightarrow> string \<Rightarrow> printf_arg list \<Rightarrow> cli_state \<Rightarrow> cli_state" where
  "fprintf f format args st = st\<lparr>out := out st @ [Printf f format args]\<rparr>"

definition printf :: "string \<Rightarrow> printf_arg list \<Rightarrow> cli_state \<Rightarrow> cli_state" where
  "printf format args st = fprintf Stdout format args st"

subsection \<open>Logging\<close>

definition log_callback :: "string \<Rightarrow> cli_state \<Rightarrow> cli_state" where
  "log_callback message st =
     (if g_verbose st then printf ''[mss] %s\<newline>'' [Arg_s (Some message)] st else st)"

definition print_quiet :: "string \<Rightarrow> printf_arg list \<Rightarrow> cli_state \<Rightarrow> cli_state" where
  "print_quiet format args st = printf format args st"

definition print_error :: "string \<Rightarrow> printf_arg list \<Rightarrow> cli_state \<Rightarrow> cli_state" where
  "print_error format args st =
     (let st1 = fprintf Stderr ''Error: '' [] st;
          st2 = fprintf Stderr format args st1
      in fprintf Stderr ''\<newline>'' [] st2)"

subsection \<open>The library behind mss.h\<close>

text \<open>
  Modelled from the spec: the header mss.h and the library it declares are not among
  the sources. A library call returns a result code and, while it runs, hands its
  messages to the log sink installed with \<open>mss_set_log_callback\<close> (the only sink the
  program installs is \<open>log_callback\<close>); the code and the messages of each call are
  given by the environment. \<open>MSS_SUCCESS\<close> is the result code of success;
  \<open>mss_create\<close> gives whether the context is created (not \<open>NULL\<close>) and what the call
  logs. The environment also holds what the system answers: \<open>getprogname()\<close>, and
  \<open>stat_osax\<close>, the return value of \<open>stat\<close> on /Library/ScriptingAdditions/mss.osax.
\<close>

record lib_call =
  ret :: int
  logged :: "string list"

record environment =
  MSS_SUCCESS :: int
  getprogname :: string
  stat_osax :: int
  mss_create :: "bool \<times> string list"
  mss_destroy :: "string list"
  mss_check_requirements :: lib_call
  mss_install :: lib_call
  mss_load :: lib_call
  mss_uninstall :: lib_call
  mss_handshake :: lib_call
  handshake_capabilities :: uint32_t
  handshake_version :: "string option"

definition mss_set_log_callback :: "cli_state \<Rightarrow> cli_state" where
  "mss_set_log_callback st = st\<lparr>log_sink := True, writes := writes st @ [Write_log_sink]\<rparr>"

definition lib_log :: "string list \<Rightarrow> cli_state \<Rightarrow> cli_state" where
  "lib_log messages st = (if log_sink st then fold log_callback messages st else st)"

definition call :: "lib_call \<Rightarrow> cli_state \<Rightarrow> int \<times> cli_state" where
  "call c st = (ret c, lib_log (logged c) st)"

text \<open>
  \<open>mss_handshake(ctx, &capabilities, &version)\<close>: the result code and the values of
  \<open>capabilities\<close> and \<open>version\<close> after the call.
\<close>

definition handshake ::
    "environment \<Rightarrow> cli_state \<Rightarrow> int \<times> uint32_t \<times> string option \<times> cli_state" where
  "handshake env st =
     (let (result, st') = call (mss_handshake env) st
      in (result, handshake_capabilities env, handshake_version env, st'))"

text \<open>
  Modelled from the spec: the macros \<open>MSS_CAP_*\<close> of mss.h are not among the sources;
  they are the seven capability flags in the order the spec lists them, with the bit
  values common.h gives them.
\<close>

definition MSS_CAP_DOCK_SPACES :: int where "MSS_CAP_DOCK_SPACES = OSAX_ATTRIB_DOCK_SPACES"
definition MSS_CAP_DPPM :: int where "MSS_CAP_DPPM = OSAX_ATTRIB_DPPM"
definition MSS_CAP_ADD_SPACE :: int where "MSS_CAP_ADD_SPACE = OSAX_ATTRIB_ADD_SPACE"
definition MSS_CAP_REM_SPACE :: int where "MSS_CAP_REM_SPACE = OSAX_ATTRIB_REM_SPACE"
definition MSS_CAP_MOV_SPACE :: int where "MSS_CAP_MOV_SPACE = OSAX_ATTRIB_MOV_SPACE"
definition MSS_CAP_SET_WINDOW :: int where "MSS_CAP_SET_WINDOW = OSAX_ATTRIB_SET_WINDOW"
definition MSS_CAP_ANIM_TIME :: int where "MSS_CAP_ANIM_TIME = OSAX_ATTRIB_ANIM_TIME"

subsection \<open>Help text\<close>

definition print_help :: "string \<Rightarrow> cli_state \<Rightarrow> cli_state" where
  "print_help program_name st =
     fold (\<lambda>(format, args). printf format args)
       [(''mss - macOS Scripting Addition Manager\<newline>'', []),
        (''\<newline>'', []),
        (''Usage: %s <command> [options]\<newline>'', [Arg_s (Some program_name)]),
        (''\<newline>'', []),
        (''Commands:\<newline>'', []),
        (''  check        Check system requirements\<newline>'', []),
        (''  install      Install scripting addition\<newline>'', []),
        (''  load         Load scripting addition (installs if needed)\<newline>'', []),
        (''  uninstall    Remove scripting addition\<newline>'', []),
        (''  status       Show installation status\<newline>'', []),
        (''  test         Test if scripting addition is working\<newline>'', []),
        (''\<newline>'', []),
        (''Options:\<newline>'', []),
        (''  -v, --verbose    Show detailed output\<newline>'', []),
        (''  -h, --help       Show this help message\<newline>'', []),
        (''\<newline>'', []),
        (''Requirements:\<newline>'', []),
        (''  - Root privileges (use sudo)\<newline>'', []),
        (''  - SIP partially disabled (Filesystem + Debugging Restrictions)\<newline>'', []),
        (''  - ARM64: boot-arg '-arm64e_preview_abi' must be set\<newline>'', []),
        (''\<newline>'', []),
        (''Examples:\<newline>'', []),
        (''  sudo %s check          # Check requirements\<newline>'',
           [Arg_s (Some program_name)]),
        (''  sudo %s load -v        # Install and load with verbose output\<newline>'',
           [Arg_s (Some program_name)]),
        (''  sudo %s status         # Show current status\<newline>'',
           [Arg_s (Some program_name)]),
        (''  sudo %s test           # Verify it's working\<newline>'',
           [Arg_s (Some program_name)]),
        (''  sudo %s uninstall      # Remove completely\<newline>'',
           [Arg_s (Some program_name)]),
        (''\<newline>'', [])]
       st"

subsection \<open>Utility functions\<close>

definition is_installed :: "environment \<Rightarrow> bool" where
  "is_installed env = (stat_osax env = 0)"

subsection \<open>Command handlers\<close>

definition cmd_check :: "environment \<Rightarrow> cli_state \<Rightarrow> int \<times> cli_state" where
  "cmd_check env st =
     (let st1 = (if \<not> g_verbose st
                 then print_quiet ''Checking system requirements...\<newline>'' [] st else st);
          (result, st2) = call (mss_check_requirements env) st1
      in if result = MSS_SUCCESS env
         then (0, print_quiet (check_mark @ '' All system requirements met\<newline>'') [] st2)
         else
           (let st3 = print_error ''System requirements not met'' [] st2;
                st4 = (if \<not> g_verbose st3
                       then print_quiet
                              ''\<newline>Run with --verbose for detailed information\<newline>'' [] st3
                       else st3)
            in (1, st4)))"

definition cmd_install :: "environment \<Rightarrow> cli_state \<Rightarrow> int \<times> cli_state" where
  "cmd_install env st =
     (let st1 = (if \<not> g_verbose st
                 then print_quiet ''Installing scripting addition...\<newline>'' [] st else st);
          (result, st2) = call (mss_install env) st1
      in if result = MSS_SUCCESS env
         then (0, print_quiet (check_mark @ '' Installed successfully\<newline>'') [] st2)
         else
           (let st3 = print_error ''Installation failed'' [] st2;
                st4 = (if \<not> g_verbose st3
                       then print_quiet
                              ''\<newline>Run with --verbose for detailed error information\<newline>''
                              [] st3
                       else st3)
            in (1, st4)))"

definition cmd_load :: "environment \<Rightarrow> cli_state \<Rightarrow> int \<times> cli_state" where
  "cmd_load env st =
     (let st1 = (if \<not> g_verbose st
                 then print_quiet ''Loading scripting addition...\<newline>'' [] st else st);
          (result, st2) = call (mss_load env) st1
      in if result = MSS_SUCCESS env
         then (0, print_quiet (check_mark @ '' Loaded successfully\<newline>'') [] st2)
         else
           (let st3 = print_error ''Loading failed'' [] st2;
                st4 = (if \<not> g_verbose st3
                       then print_quiet
                              ''\<newline>Run with --verbose for detailed error information\<newline>''
                              [] st3
                       else st3)
            in (1, st4)))"

definition cmd_uninstall :: "environment \<Rightarrow> cli_state \<Rightarrow> int \<times> cli_state" where
  "cmd_uninstall env st =
     (let st1 = (if \<not> g_verbose st
                 then print_quiet ''Uninstalling scripting addition...\<newline>'' [] st else st);
          (result, st2) = call (mss_uninstall env) st1
      in if result = MSS_SUCCESS env
         then (0, print_quiet (check_mark @ '' Uninstalled successfully\<newline>'') [] st2)
         else
           (let st3 = print_error ''Uninstallation failed'' [] st2;
                st4 = (if \<not> g_verbose st3
                       then print_quiet
                              ''\<newline>Run with --verbose for detailed error information\<newline>''
                              [] st3
                       else st3)
            in (1, st4)))"

text \<open>
  The counting loop of \<open>cmd_status\<close>:
  \<open>for (int i = 0; i < 7; i++) if (capabilities & (1 << i)) cap_count++;\<close>
\<close>

function status_cap_loop :: "uint32_t \<Rightarrow> int \<Rightarrow> int \<Rightarrow> int" where
  "status_cap_loop capabilities i cap_count =
     (if i < 7
      then status_cap_loop capabilities (i + 1)
             (if capabilities AND word_of_int (push_bit (nat i) 1) \<noteq> 0
              then cap_count + 1 else cap_count)
      else cap_count)"
  by pat_completeness auto
termination
  by (relation "measure (\<lambda>(capabilities, i, cap_count). nat (7 - i))") auto

declare status_cap_loop.simps [simp del]

definition cmd_status :: "environment \<Rightarrow> cli_state \<Rightarrow> int \<times> cli_state" where
  "cmd_status env st =
     (let st1 = printf ''Status Report:\<newline>'' [] st;
          st2 = printf ''\<newline>'' [] st1;
          st3 = (if is_installed env
                 then printf (''Installation: '' @ check_mark
                        @ '' Installed at /Library/ScriptingAdditions/mss.osax\<newline>'') [] st2
                 else printf (''Installation: '' @ ballot_x @ '' Not installed\<newline>'') [] st2);
          (result, capabilities, version, st4) = handshake env st3;
          st5 = (if result = MSS_SUCCESS env
                 then (let cap_count = status_cap_loop capabilities 0 0
                       in printf (''Loading:      '' @ check_mark
                            @ '' Loaded (version %s, %d/%d capabilities)\<newline>'')
                            [Arg_s version, Arg_d cap_count, Arg_d 7] st4)
                 else printf (''Loading:      '' @ ballot_x @ '' Not loaded\<newline>'') [] st4);
          old_verbose = g_verbose st5;
          st6 = set_g_verbose False st5;
          (result', st7) = call (mss_check_requirements env) st6;
          st8 = set_g_verbose old_verbose st7;
          st9 = (if result' = MSS_SUCCESS env
                 then printf (''Requirements: '' @ check_mark
                        @ '' All requirements met\<newline>'') [] st8
                 else printf (''Requirements: '' @ ballot_x
                        @ '' Not met (run 'check' for details)\<newline>'') [] st8);
          st10 = printf ''\<newline>'' [] st9
      in (0, st10))"

text \<open>
  One line of the capability listing of \<open>cmd_test\<close>:
  \<open>if (capabilities & FLAG) { printf(LINE); cap_count++; }\<close>
\<close>

definition test_cap ::
    "uint32_t \<Rightarrow> int \<Rightarrow> string \<Rightarrow> int \<times> cli_state \<Rightarrow> int \<times> cli_state" where
  "test_cap capabilities flag line = (\<lambda>(cap_count, st).
     if capabilities AND word_of_int flag \<noteq> 0
     then (cap_count + 1, printf line [] st)
     else (cap_count, st))"

definition test_caps :: "uint32_t \<Rightarrow> int \<times> cli_state \<Rightarrow> int \<times> cli_state" where
  "test_caps capabilities c0 =
     (let c1 = test_cap capabilities MSS_CAP_DOCK_SPACES
                 (''    '' @ check_mark @ '' Dock Spaces\<newline>'') c0;
          c2 = test_cap capabilities MSS_CAP_DPPM
                 (''    '' @ check_mark @ '' Desktop Picture Manager\<newline>'') c1;
          c3 = test_cap capabilities MSS_CAP_ADD_SPACE
                 (''    '' @ check_mark @ '' Add Space\<newline>'') c2;
          c4 = test_cap capabilities MSS_CAP_REM_SPACE
                 (''    '' @ check_mark @ '' Remove Space\<newline>'') c3;
          c5 = test_cap capabilities MSS_CAP_MOV_SPACE
                 (''    '' @ check_mark @ '' Move Space\<newline>'') c4;
          c6 = test_cap capabilities MSS_CAP_SET_WINDOW
                 (''    '' @ check_mark @ '' Set Window\<newline>'') c5
      in test_cap capabilities MSS_CAP_ANIM_TIME
           (''    '' @ check_mark @ '' Animation Time\<newline>'') c6)"

definition cmd_test :: "environment \<Rightarrow> cli_state \<Rightarrow> int \<times> cli_state" where
  "cmd_test env st =
     (let st1 = printf ''Testing scripting addition...\<newline>'' [] st;
          (result, capabilities, version, st2) = handshake env st1
      in if result \<noteq> MSS_SUCCESS env
         then
           (let st3 = print_error ''Handshake failed - scripting addition not loaded'' [] st2
            in (1, printf ''\<newline>Try running: sudo %s load\<newline>''
                     [Arg_s (Some (getprogname env))] st3))
         else
           (let st3 = printf (check_mark @ '' Handshake successful\<newline>'') [] st2;
                st4 = printf ''  Version: %s\<newline>'' [Arg_s version] st3;
                st5 = printf ''  Capabilities:\<newline>'' [] st4;
                (cap_count, st6) = test_caps capabilities (0, st5);
                st7 = printf ''\<newline>'' [] st6
            in if cap_count = 7
               then (0, printf (check_mark
                          @ '' Scripting addition is working correctly (%d/%d capabilities)\<newline>'')
                          [Arg_d cap_count, Arg_d 7] st7)
               else
                 (let st8 = printf (warning_sign
                              @ '' Warning: Only %d/%d capabilities available\<newline>'')
                              [Arg_d cap_count, Arg_d 7] st7
                  in (1, printf
                       ''  This may indicate compatibility issues with your macOS version\<newline>''
                       [] st8))))"

subsection \<open>Main\<close>

text \<open>
  The argument loop of \<open>main\<close> over \<open>argv[1], ..., argv[argc - 1]\<close>: \<open>Inl code\<close> when
  the loop returns from \<open>main\<close> with that exit code, \<open>Inr command\<close> when it runs to its
  end (\<open>command\<close> is \<open>None\<close> while the pointer is \<open>NULL\<close>).
\<close>

fun parse_args ::
    "string \<Rightarrow> string list \<Rightarrow> string option \<Rightarrow> cli_state
       \<Rightarrow> (int + string option) \<times> cli_state" where
  "parse_args argv0 [] command st = (Inr command, st)"
| "parse_args argv0 (a # args) command st =
     (if a = ''-v'' \<or> a = ''--verbose'' then
        parse_args argv0 args command (set_g_verbose True st)
      else if a = ''-h'' \<or> a = ''--help'' then
        (Inl 0, print_help argv0 st)
      else if take 1 a = ''-'' then
        (Inl 1, print_help argv0 (print_error ''Unknown option: %s'' [Arg_s (Some a)] st))
      else if command = None then
        parse_args argv0 args (Some a) st
      else
        (Inl 1, print_help argv0 (print_error ''Unexpected argument: %s'' [Arg_s (Some a)] st)))"

text \<open>The block of \<open>main\<close> that dispatches the command to its handler.\<close>

definition dispatch :: "environment \<Rightarrow> string \<Rightarrow> string \<Rightarrow> cli_state \<Rightarrow> int \<times> cli_state" where
  "dispatch env argv0 command st =
     (if command = ''check'' then cmd_check env st
      else if command = ''install'' then cmd_install env st
      else if command = ''load'' then cmd_load env st
      else if command = ''uninstall'' then cmd_uninstall env st
      else if command = ''status'' then cmd_status env st
      else if command = ''test'' then cmd_test env st
      else
        (let st1 = print_error ''Unknown command: %s'' [Arg_s (Some command)] st;
             st2 = printf ''\<newline>'' [] st1
         in (1, print_help argv0 st2)))"

definition main :: "environment \<Rightarrow> string \<Rightarrow> string list \<Rightarrow> cli_state \<Rightarrow> int \<times> cli_state" where
  "main env argv0 args st =
     (case parse_args argv0 args None st of
        (Inl code, st1) \<Rightarrow> (code, st1)
      | (Inr None, st1) \<Rightarrow>
          (let st2 = print_error ''No command specified'' [] st1;
               st3 = printf ''\<newline>'' [] st2
           in (1, print_help argv0 st3))
      | (Inr (Some command), st1) \<Rightarrow>
          (let st2 = mss_set_log_callback st1;
               st3 = lib_log (snd (mss_create env)) st2
           in if \<not> fst (mss_create env)
              then (1, print_error ''Failed to create context'' [] st3)
              else
                (let (result, st4) = dispatch env argv0 command st3;
                     st5 = lib_log (mss_destroy env) st4
                 in (result, st5))))"

subsection \<open>Reading the state\<close>

text \<open>The process-wide variables of a state, without the output.\<close>

definition globals :: "cli_state \<Rightarrow> bool \<times> bool \<times> global_write list" where
  "globals st = (g_verbose st, log_sink st, writes st)"

text \<open>What \<open>log_callback\<close> prints for a list of messages, by the value of the flag.\<close>

definition log_lines :: "bool \<Rightarrow> string list \<Rightarrow> out_event list" where
  "log_lines verbose messages =
     (if verbose
      then map (\<lambda>message. Printf Stdout ''[mss] %s\<newline>'' [Arg_s (Some message)]) messages
      else [])"

text \<open>
  The value of \<open>cap_count\<close> in \<open>cmd_test\<close> after the capability listing; it does not
  depend on the state the listing is printed in.
\<close>

definition test_cap_count :: "uint32_t \<Rightarrow> int" where
  "test_cap_count capabilities = fst (test_caps capabilities (0, initial_state))"

text \<open>How many times the log sink has been installed.\<close>

definition sink_installs :: "cli_state \<Rightarrow> nat" where
  "sink_installs st = length (filter (\<lambda>w. w = Write_log_sink) (writes st))"

subsection \<open>Population count\<close>

text \<open>The number of bits set in a 32-bit mask.\<close>

definition popcount :: "uint32_t \<Rightarrow> int" where
  "popcount w = int (length (filter (bit w) [0..<32]))"

section \<open>Concrete runs\<close>

text \<open>A kernel that answers every call with \<open>-1\<close> and sets \<open>errno\<close> to \<open>e\<close>.\<close>

definition refusing :: "int \<Rightarrow> kernel" where
  "refusing e = \<lparr>calls = [], errno = 0, respond = (\<lambda>h c. (-1, e))\<rparr>"

text \<open>
  An environment in which nothing is there: the bundle is not installed, the handshake
  fails, the requirements are not met; the requirement check logs one message.
\<close>

definition absent_env :: environment where
  "absent_env =
     \<lparr>MSS_SUCCESS = 0, getprogname = ''mss'', stat_osax = -1,
      mss_create = (True, []), mss_destroy = [],
      mss_check_requirements = \<lparr>ret = -1, logged = [''Not running as root'']\<rparr>,
      mss_install = \<lparr>ret = -1, logged = []\<rparr>,
      mss_load = \<lparr>ret = -1, logged = []\<rparr>,
      mss_uninstall = \<lparr>ret = -1, logged = []\<rparr>,
      mss_handshake = \<lparr>ret = -1, logged = []\<rparr>,
      handshake_capabilities = 0, handshake_version = None\<rparr>"

section \<open>Properties of common.h\<close>

lemmas osax_attrib_defs =
  OSAX_ATTRIB_DOCK_SPACES_def OSAX_ATTRIB_DPPM_def OSAX_ATTRIB_ADD_SPACE_def
  OSAX_ATTRIB_REM_SPACE_def OSAX_ATTRIB_MOV_SPACE_def OSAX_ATTRIB_SET_WINDOW_def
  OSAX_ATTRIB_ANIM_TIME_def

lemma sa_opcode_value_range: "1 \<le> sa_opcode_value opc \<and> sa_opcode_value opc \<le> 0x1E"
  by (cases opc) simp_all

lemma sa_opcode_value_eqD: "sa_opcode_value a = sa_opcode_value b \<Longrightarrow> a = b"
  by (cases a; cases b; simp)

text \<open>
  C5. There are exactly seven capability macros; each is a single bit, namely bit \<open>i\<close>
  for the \<open>i\<close>-th macro (\<open>i = 0, ..., 6\<close>), so they are distinct and pairwise disjoint;
  and \<open>OSAX_ATTRIB_ALL\<close>, their bitwise union, is \<open>0x7F\<close>.
\<close>

theorem osax_attribs_single_bits:
  "length osax_attribs = 7
   \<and> osax_attribs = map (\<lambda>i. push_bit i 1) [0, 1, 2, 3, 4, 5, 6]
   \<and> distinct osax_attribs
   \<and> disjoint_bits osax_attribs
   \<and> OSAX_ATTRIB_ALL = foldr (OR) osax_attribs 0
   \<and> OSAX_ATTRIB_ALL = 0x7F"
  by (simp add: osax_attribs_def OSAX_ATTRIB_ALL_def osax_attrib_defs)

text \<open>
  C6. The numeric codes of the opcodes are pairwise distinct (the mapping from enumerator
  to code is injective) and every code lies between \<open>0x01\<close> and \<open>0x1E\<close> inclusive.
\<close>

theorem sa_opcode_codes_distinct_in_range:
  "inj sa_opcode_value
   \<and> (\<forall>opc. 0x01 \<le> sa_opcode_value opc \<and> sa_opcode_value opc \<le> 0x1E)"
proof
  show "inj sa_opcode_value"
    by (rule injI) (rule sa_opcode_value_eqD)
next
  show "\<forall>opc. 0x01 \<le> sa_opcode_value opc \<and> sa_opcode_value opc \<le> 0x1E"
    using sa_opcode_value_range by simp
qed

section \<open>Properties of util.h\<close>

subsection \<open>The path copied by \<open>socket_connect\<close>\<close>

lemma store_all_enumerate:
  "i + length xs \<le> length buf \<Longrightarrow>
   store_all buf (enumerate i xs) = Some (take i buf @ xs @ drop (i + length xs) buf)"
proof (induction xs arbitrary: i buf)
  case Nil
  then show ?case by simp
next
  case (Cons x xs)
  from Cons.prems have i: "i < length buf" and l: "Suc i + length xs \<le> length (buf[i := x])"
    by simp_all
  have "store_all buf (enumerate i (x # xs)) = store_all (buf[i := x]) (enumerate (Suc i) xs)"
    using i by simp
  also have "\<dots> = Some (take (Suc i) (buf[i := x]) @ xs @ drop (Suc i + length xs) (buf[i := x]))"
    by (rule Cons.IH [OF l])
  also have "take (Suc i) (buf[i := x]) = take i buf @ [x]"
    using i by (simp add: take_Suc_conv_app_nth)
  finally show ?case by simp
qed

lemma snprintf_s_length: "length (snprintf_s n s) \<le> n"
  by (cases n) (simp_all add: snprintf_s_def)

lemma snprintf_s_indices: "map fst (snprintf_s n s) = [0..<length (snprintf_s n s)]"
  by (simp add: snprintf_s_def)

lemma c_string_no_NUL: "NUL \<notin> set (c_string s)"
  unfolding c_string_def by (auto dest: set_takeWhileD)

lemma c_string_terminated: "NUL \<notin> set xs \<Longrightarrow> c_string (xs @ NUL # rest) = xs"
  unfolding c_string_def by (induction xs) auto

lemma c_string_id: "NUL \<notin> set xs \<Longrightarrow> c_string xs = xs"
  unfolding c_string_def by (induction xs) auto

lemma take_c_string_no_NUL: "NUL \<notin> set (take n (c_string s))"
  using c_string_no_NUL [of s] by (auto dest: in_set_takeD)

lemma c_string_take_idem: "c_string (take n (c_string s)) = take n (c_string s)"
  by (rule c_string_id [OF take_c_string_no_NUL])

lemma store_snprintf_s:
  "store_all buf (snprintf_s (length buf) s) =
     Some (if buf = [] then []
           else take (length buf - 1) (c_string s) @ NUL #
                drop (Suc (min (length (c_string s)) (length buf - 1))) buf)"
proof (cases "buf = []")
  case True
  then show ?thesis by (simp add: snprintf_s_def)
next
  case False
  let ?xs = "take (length buf - 1) (c_string s) @ [NUL]"
  from False have "0 + length ?xs \<le> length buf"
    by (cases buf) simp_all
  from store_all_enumerate [OF this] False show ?thesis
    by (simp add: snprintf_s_def)
qed

lemma socket_connect_address_eq:
  "socket_connect_address socket_path socket_address =
     Some (socket_address\<lparr>sun_family := AF_UNIX,
             sun_path := (if sun_path socket_address = [] then []
                else take (sizeof_sun_path socket_address - 1) (c_string socket_path) @ NUL #
                     drop (Suc (min (length (c_string socket_path))
                                 (sizeof_sun_path socket_address - 1)))
                       (sun_path socket_address))\<rparr>)"
  by (simp add: socket_connect_address_def sizeof_sun_path_def store_snprintf_s Let_def)

text \<open>
  C10. For every socket path and every content of the address structure before the
  call: \<open>snprintf\<close> stores at most \<open>sizeof(sun_path)\<close> bytes, at the indices
  \<open>0, 1, ...\<close> of the array, so no store falls outside it (the address is built, the
  array keeps its size); the string left in \<open>sun_path\<close> is the path cut to
  \<open>sizeof(sun_path) - 1\<close> bytes; \<open>connect\<close> is called with that address and its
  answer alone decides the result; and the call behaves exactly as it does on the
  truncated path, so the truncation is not reported.
\<close>

theorem socket_connect_path_bounded:
  "\<exists>a. socket_connect_address socket_path socket_address = Some a
     \<and> length (snprintf_s (sizeof_sun_path socket_address) socket_path)
          \<le> sizeof_sun_path socket_address
     \<and> map fst (snprintf_s (sizeof_sun_path socket_address) socket_path)
          = [0..<length (snprintf_s (sizeof_sun_path socket_address) socket_path)]
     \<and> sizeof_sun_path a = sizeof_sun_path socket_address
     \<and> c_string (sun_path a)
          = take (sizeof_sun_path socket_address - 1) (c_string socket_path)
     \<and> socket_connect sockfd socket_path socket_address k
          = Some (fst (sys (Sys_connect sockfd a (sizeof_sockaddr_un a)) k) \<noteq> -1,
                  snd (sys (Sys_connect sockfd a (sizeof_sockaddr_un a)) k))
     \<and> socket_connect sockfd socket_path socket_address k
          = socket_connect sockfd
              (take (sizeof_sun_path socket_address - 1) (c_string socket_path))
              socket_address k"
proof -
  let ?n = "sizeof_sun_path socket_address"
  let ?t = "take (?n - 1) (c_string socket_path)"
  obtain a where a: "socket_connect_address socket_path socket_address = Some a"
    by (simp add: socket_connect_address_eq)
  have size: "sizeof_sun_path a = ?n"
    using a unfolding socket_connect_address_eq
    by (cases "sun_path socket_address") (auto simp: sizeof_sun_path_def)
  have path: "c_string (sun_path a) = ?t"
  proof (cases "sun_path socket_address = []")
    case True
    with a show ?thesis
      unfolding socket_connect_address_eq by (auto simp: sizeof_sun_path_def c_string_def)
  next
    case False
    with a obtain rest where "sun_path a = ?t @ NUL # rest"
      unfolding socket_connect_address_eq by auto
    then show ?thesis
      by (simp add: c_string_terminated [OF take_c_string_no_NUL])
  qed
  have conn: "socket_connect sockfd socket_path socket_address k
      = Some (fst (sys (Sys_connect sockfd a (sizeof_sockaddr_un a)) k) \<noteq> -1,
              snd (sys (Sys_connect sockfd a (sizeof_sockaddr_un a)) k))"
    by (simp add: socket_connect_def a split: prod.split)
  have "socket_connect_address ?t socket_address
      = socket_connect_address socket_path socket_address"
    unfolding socket_connect_address_eq by (simp add: c_string_take_idem min_def)
  then have trunc: "socket_connect sockfd socket_path socket_address k
      = socket_connect sockfd ?t socket_address k"
    by (simp add: socket_connect_def)
  from a size path conn trunc snprintf_s_length snprintf_s_indices show ?thesis
    by blast
qed

subsection \<open>The result of \<open>socket_connect\<close>\<close>

text \<open>
  C7. Whatever the socket path, and whatever the cause for which \<open>connect\<close> fails (the
  \<open>errno\<close> values \<open>e1\<close> and \<open>e2\<close> that come with its answer \<open>-1\<close>), the value
  \<open>socket_connect\<close> returns is the same: \<open>false\<close>. The return value tells a failure
  from a success and nothing else.
\<close>

theorem socket_connect_failure_undifferentiated:
  assumes "socket_connect_address socket_path socket_address = Some a"
    and "respond k1 (calls k1) (Sys_connect sockfd a (sizeof_sockaddr_un a)) = (-1, e1)"
    and "respond k2 (calls k2) (Sys_connect sockfd a (sizeof_sockaddr_un a)) = (-1, e2)"
  shows "map_option fst (socket_connect sockfd socket_path socket_address k1) = Some False
       \<and> map_option fst (socket_connect sockfd socket_path socket_address k2) = Some False"
  using assms by (simp add: socket_connect_def sys_def)

theorem socket_connect_failure_undifferentiated_witness:
  "map_option fst (socket_connect 3 ''/tmp/mss.socket''
       \<lparr>sun_family = 0, sun_path = replicate 104 (CHR ''x'')\<rparr> (refusing 2)) = Some False
   \<and> map_option fst (socket_connect 3 ''/tmp/mss.socket''
       \<lparr>sun_family = 0, sun_path = replicate 104 (CHR ''x'')\<rparr> (refusing 61)) = Some False"
  using socket_connect_failure_undifferentiated
    [of "''/tmp/mss.socket''" "\<lparr>sun_family = 0, sun_path = replicate 104 (CHR ''x'')\<rparr>" _
        "refusing 2" 3 2 "refusing 61" 61]
  by (simp add: socket_connect_address_eq refusing_def)

subsection \<open>\<open>socket_close\<close> and \<open>is_root\<close>\<close>

text \<open>
  C8. \<open>socket_close\<close> makes exactly two system calls, in this order: \<open>shutdown\<close> of the
  descriptor with \<open>SHUT_RDWR\<close> (both directions), then \<open>close\<close> of the descriptor. This
  holds for every kernel, so also when \<open>shutdown\<close> fails: its result is not looked at
  and there is no other path through the function.
\<close>

theorem socket_close_shutdown_then_close:
  "calls (socket_close sockfd k) = calls k @ [Sys_shutdown sockfd SHUT_RDWR, Sys_close sockfd]"
  by (simp add: socket_close_def sys_def split: prod.split)

text \<open>
  C9. \<open>is_root\<close> is true exactly when the real or the effective user id is 0; in
  particular a process with effective user id 0 is privileged whatever its real user id.
\<close>

theorem is_root_iff:
  "(is_root p \<longleftrightarrow> real_uid p = 0 \<or> effective_uid p = 0)
   \<and> is_root (p\<lparr>effective_uid := 0\<rparr>)"
  by (simp add: is_root_def getuid_def geteuid_def)

section \<open>Properties of cli.c\<close>

subsection \<open>Counting capabilities\<close>

lemma cap_bit_test:
  "(capabilities AND word_of_int (push_bit n 1) \<noteq> 0) = bit (capabilities :: uint32_t) n"
  by (simp add: and_exp_eq_0_iff_not_bit)

lemma status_cap_loop_count:
  "0 \<le> i \<Longrightarrow>
   status_cap_loop capabilities i cap_count =
     cap_count + int (length (filter (bit capabilities) [nat i..<7]))"
proof (induction capabilities i cap_count rule: status_cap_loop.induct)
  case (1 capabilities i cap_count)
  show ?case
  proof (cases "i < 7")
    case True
    let ?c = "if capabilities AND word_of_int (push_bit (nat i) 1) \<noteq> 0
              then cap_count + 1 else cap_count"
    from True "1.prems" have upt: "[nat i..<7] = nat i # [nat (i + 1)..<7]"
      by (simp add: upt_conv_Cons nat_add_distrib)
    have "status_cap_loop capabilities i cap_count = status_cap_loop capabilities (i + 1) ?c"
      using True by (subst status_cap_loop.simps) simp
    also have "\<dots> = ?c + int (length (filter (bit capabilities) [nat (i + 1)..<7]))"
      using True "1.prems" by (intro "1.IH") simp_all
    also have "\<dots> = cap_count + int (length (filter (bit capabilities) [nat i..<7]))"
      unfolding cap_bit_test upt by simp
    finally show ?thesis .
  next
    case False
    then show ?thesis
      by (subst status_cap_loop.simps) simp
  qed
qed

lemma bit_low7: "bit (w AND 0x7F) n = (bit (w :: uint32_t) n \<and> n < 7)"
proof -
  have eq: "(0x7F :: uint32_t) = mask 7"
    by (simp add: mask_eq_exp_minus_1)
  have "bit (w AND mask 7) n = (bit w n \<and> n < 7)"
    by (simp only: bit_and_iff bit_mask_iff) (auto simp: possible_bit_def)
  then show ?thesis
    by (simp only: eq)
qed

lemma popcount_low7:
  "popcount (w AND 0x7F) = int (length (filter (bit w) [0..<7]))"
proof -
  have split: "[0..<32] = [0..<7] @ [7..<32]"
    using upt_add_eq_append [of 0 7 25] by simp
  have "filter (bit (w AND 0x7F)) [0..<7] = filter (bit w) [0..<7]"
    by (rule filter_cong) (simp_all add: bit_low7)
  moreover have "filter (bit (w AND 0x7F)) [7..<32] = []"
    by (simp add: filter_empty_conv bit_low7)
  ultimately show ?thesis
    unfolding popcount_def split filter_append by simp
qed

lemma popcount_card: "popcount w = int (card {n. bit w n})"
proof -
  have "{n. bit w n} = set (filter (bit w) [0..<32])"
    by (auto dest: bit_imp_le_length)
  then have "card {n. bit w n} = card (set (filter (bit w) [0..<32]))"
    by (rule arg_cong)
  also have "\<dots> = length (filter (bit w) [0..<32])"
    by (rule distinct_card) simp
  finally show ?thesis by (simp add: popcount_def)
qed

lemma fst_test_cap:
  "fst (test_cap capabilities flag line c) =
     fst c + (if capabilities AND word_of_int flag \<noteq> 0 then 1 else 0)"
  by (cases c) (simp add: test_cap_def)

lemma flag_bits:
  "(capabilities AND word_of_int MSS_CAP_DOCK_SPACES \<noteq> 0) = bit (capabilities :: uint32_t) 0"
  "(capabilities AND word_of_int MSS_CAP_DPPM \<noteq> 0) = bit capabilities 1"
  "(capabilities AND word_of_int MSS_CAP_ADD_SPACE \<noteq> 0) = bit capabilities 2"
  "(capabilities AND word_of_int MSS_CAP_REM_SPACE \<noteq> 0) = bit capabilities 3"
  "(capabilities AND word_of_int MSS_CAP_MOV_SPACE \<noteq> 0) = bit capabilities 4"
  "(capabilities AND word_of_int MSS_CAP_SET_WINDOW \<noteq> 0) = bit capabilities 5"
  "(capabilities AND word_of_int MSS_CAP_ANIM_TIME \<noteq> 0) = bit capabilities 6"
  using cap_bit_test [of capabilities 0] cap_bit_test [of capabilities 1]
    cap_bit_test [of capabilities 2] cap_bit_test [of capabilities 3]
    cap_bit_test [of capabilities 4] cap_bit_test [of capabilities 5]
    cap_bit_test [of capabilities 6]
  by (simp_all add: MSS_CAP_DOCK_SPACES_def MSS_CAP_DPPM_def MSS_CAP_ADD_SPACE_def
      MSS_CAP_REM_SPACE_def MSS_CAP_MOV_SPACE_def MSS_CAP_SET_WINDOW_def MSS_CAP_ANIM_TIME_def
      osax_attrib_defs)

lemma upt7: "[0..<7] = [0, 1, 2, 3, 4, 5, 6]"
  by (simp add: upt_rec)

lemma test_caps_count:
  "fst (test_caps capabilities c) =
     fst c + int (length (filter (bit capabilities) [0..<7]))"
  unfolding upt7 test_caps_def Let_def fst_test_cap flag_bits
  by simp

text \<open>
  C2 (as the code has it). For every 32-bit capability mask, the count of the loop in
  \<open>cmd_status\<close> and the count of the listing in \<open>cmd_test\<close> both equal the population
  count of the mask restricted to the seven defined bits, \<open>capabilities AND 0x7F\<close>:
  for a mask within \<open>0x7F\<close> that is the population count of the mask; bits above bit 6
  are not counted.
\<close>

theorem cap_count_is_popcount_of_low_bits:
  "status_cap_loop capabilities 0 0 = popcount (capabilities AND 0x7F)
   \<and> fst (test_caps capabilities (0, st)) = popcount (capabilities AND 0x7F)
   \<and> status_cap_loop (capabilities AND 0x7F) 0 0 = popcount (capabilities AND 0x7F)
   \<and> fst (test_caps (capabilities AND 0x7F) (0, st)) = popcount (capabilities AND 0x7F)"
proof -
  have idem: "popcount ((capabilities AND 0x7F) AND 0x7F) = popcount (capabilities AND 0x7F)"
    by (simp add: and.assoc)
  have count: "status_cap_loop c 0 0 = popcount (c AND 0x7F)"
    "fst (test_caps c (0, st)) = popcount (c AND 0x7F)" for c
    by (simp_all add: status_cap_loop_count test_caps_count popcount_low7)
  show ?thesis
    using count [of capabilities] count [of "capabilities AND 0x7F"] idem by simp
qed

text \<open>
  The mask \<open>0x80\<close>, a single bit the enumeration does not name: both counts are 0, the
  population count is 1.
\<close>

theorem cap_count_unknown_bit_counterexample:
  "status_cap_loop 0x80 0 0 = 0
   \<and> fst (test_caps 0x80 (0, initial_state)) = 0
   \<and> popcount 0x80 = 1"
  by (simp add: status_cap_loop.simps test_caps_def test_cap_def popcount_def
      MSS_CAP_DOCK_SPACES_def MSS_CAP_DPPM_def MSS_CAP_ADD_SPACE_def
      MSS_CAP_REM_SPACE_def MSS_CAP_MOV_SPACE_def MSS_CAP_SET_WINDOW_def MSS_CAP_ANIM_TIME_def
      osax_attrib_defs upt_rec)

subsection \<open>Frame and output of the primitives\<close>

lemma globals_fprintf [simp]: "globals (fprintf f format args st) = globals st"
  by (simp add: globals_def fprintf_def)

lemma out_fprintf [simp]: "out (fprintf f format args st) = out st @ [Printf f format args]"
  by (simp add: fprintf_def)

lemma globals_printf [simp]: "globals (printf format args st) = globals st"
  by (simp add: printf_def)

lemma out_printf [simp]: "out (printf format args st) = out st @ [Printf Stdout format args]"
  by (simp add: printf_def)

lemma globals_print_quiet [simp]: "globals (print_quiet format args st) = globals st"
  by (simp add: print_quiet_def)

lemma out_print_quiet [simp]:
  "out (print_quiet format args st) = out st @ [Printf Stdout format args]"
  by (simp add: print_quiet_def)

lemma globals_print_error [simp]: "globals (print_error format args st) = globals st"
  by (simp add: print_error_def)

lemma out_print_error [simp]:
  "out (print_error format args st) =
     out st @ [Printf Stderr ''Error: '' [], Printf Stderr format args,
               Printf Stderr ''\<newline>'' []]"
  by (simp add: print_error_def)

lemma globals_fold_printf:
  "globals (fold (\<lambda>(format, args). printf format args) ls st) = globals st"
  by (induction ls arbitrary: st) (simp_all split: prod.split)

lemma globals_print_help [simp]: "globals (print_help program_name st) = globals st"
  unfolding print_help_def by (rule globals_fold_printf)

lemma globals_log_callback [simp]: "globals (log_callback message st) = globals st"
  by (simp add: log_callback_def)

lemma globals_fold_log_callback: "globals (fold log_callback messages st) = globals st"
  by (induction messages arbitrary: st) simp_all

lemma globals_lib_log [simp]: "globals (lib_log messages st) = globals st"
  by (simp add: lib_log_def globals_fold_log_callback)

lemma g_verbose_globals: "globals st' = globals st \<Longrightarrow> g_verbose st' = g_verbose st"
  by (simp add: globals_def)

lemma out_fold_log_callback:
  "out (fold log_callback messages st) = out st @ log_lines (g_verbose st) messages"
proof (induction messages arbitrary: st)
  case Nil
  then show ?case by (simp add: log_lines_def)
next
  case (Cons m ms)
  have "g_verbose (log_callback m st) = g_verbose st"
    by (rule g_verbose_globals) simp
  then show ?case
    by (simp add: Cons.IH) (simp add: log_callback_def log_lines_def)
qed

lemma out_lib_log [simp]:
  "out (lib_log messages st) = out st @ log_lines (log_sink st \<and> g_verbose st) messages"
  by (simp add: lib_log_def out_fold_log_callback log_lines_def)

lemma globals_set_g_verbose [simp]:
  "globals (set_g_verbose b st) = (b, log_sink st, writes st @ [Write_g_verbose b])"
  by (simp add: globals_def set_g_verbose_def)

lemma out_set_g_verbose [simp]: "out (set_g_verbose b st) = out st"
  by (simp add: set_g_verbose_def)

lemma globals_mss_set_log_callback [simp]:
  "globals (mss_set_log_callback st) = (g_verbose st, True, writes st @ [Write_log_sink])"
  by (simp add: globals_def mss_set_log_callback_def)

lemma out_mss_set_log_callback [simp]: "out (mss_set_log_callback st) = out st"
  by (simp add: mss_set_log_callback_def)

lemma call_simps [simp]:
  "fst (call c st) = ret c"
  "globals (snd (call c st)) = globals st"
  "out (snd (call c st)) = out st @ log_lines (log_sink st \<and> g_verbose st) (logged c)"
  by (simp_all add: call_def)

lemma globals_sel:
  "g_verbose st = fst (globals st)"
  "log_sink st = fst (snd (globals st))"
  "writes st = snd (snd (globals st))"
  by (simp_all add: globals_def)

subsection \<open>The command handlers\<close>

lemma handshake_eq:
  "handshake env st =
     (ret (mss_handshake env), handshake_capabilities env, handshake_version env,
      lib_log (logged (mss_handshake env)) st)"
  by (simp add: handshake_def call_def)

lemma globals_cmd_check: "globals (snd (cmd_check env st)) = globals st"
  by (simp add: cmd_check_def call_def Let_def)

lemma globals_cmd_install: "globals (snd (cmd_install env st)) = globals st"
  by (simp add: cmd_install_def call_def Let_def)

lemma globals_cmd_load: "globals (snd (cmd_load env st)) = globals st"
  by (simp add: cmd_load_def call_def Let_def)

lemma globals_cmd_uninstall: "globals (snd (cmd_uninstall env st)) = globals st"
  by (simp add: cmd_uninstall_def call_def Let_def)

lemma globals_test_cap: "globals (snd (test_cap capabilities flag line c)) = globals (snd c)"
  by (cases c) (simp add: test_cap_def)

lemma globals_test_caps: "globals (snd (test_caps capabilities c)) = globals (snd c)"
  by (simp add: test_caps_def Let_def globals_test_cap)

lemma globals_cmd_test: "globals (snd (cmd_test env st)) = globals st"
  by (simp add: cmd_test_def handshake_eq Let_def split_beta globals_test_caps)

lemma fst_cmd_status: "fst (cmd_status env st) = 0"
  by (simp add: cmd_status_def Let_def split_beta)

lemma flags_printf [simp]:
  "g_verbose (printf format args st) = g_verbose st"
  "log_sink (printf format args st) = log_sink st"
  by (simp_all add: printf_def fprintf_def)

lemma flags_lib_log [simp]:
  "g_verbose (lib_log messages st) = g_verbose st"
  "log_sink (lib_log messages st) = log_sink st"
  using globals_lib_log [of messages st] by (simp_all add: globals_def)

lemma flags_set_g_verbose [simp]:
  "g_verbose (set_g_verbose b st) = b"
  "log_sink (set_g_verbose b st) = log_sink st"
  by (simp_all add: set_g_verbose_def)

lemma writes_globals: "writes st = snd (snd (globals st))"
  by (simp add: globals_def)

lemma globals_cmd_status:
  "globals (snd (cmd_status env st)) =
     (g_verbose st, log_sink st, writes st @ [Write_g_verbose False, Write_g_verbose (g_verbose st)])"
  by (simp add: cmd_status_def handshake_eq call_def Let_def writes_globals)

subsection \<open>The status report\<close>

lemma out_cmd_status:
  "out (snd (cmd_status env st)) =
       out st
       @ [Printf Stdout ''Status Report:\<newline>'' [],
          Printf Stdout ''\<newline>'' [],
          if is_installed env
          then Printf Stdout (''Installation: '' @ check_mark
                 @ '' Installed at /Library/ScriptingAdditions/mss.osax\<newline>'') []
          else Printf Stdout (''Installation: '' @ ballot_x @ '' Not installed\<newline>'') []]
       @ log_lines (log_sink st \<and> g_verbose st) (logged (mss_handshake env))
       @ [if ret (mss_handshake env) = MSS_SUCCESS env
          then Printf Stdout (''Loading:      '' @ check_mark
                 @ '' Loaded (version %s, %d/%d capabilities)\<newline>'')
                 [Arg_s (handshake_version env),
                  Arg_d (status_cap_loop (handshake_capabilities env) 0 0), Arg_d 7]
          else Printf Stdout (''Loading:      '' @ ballot_x @ '' Not loaded\<newline>'') [],
          if ret (mss_check_requirements env) = MSS_SUCCESS env
          then Printf Stdout (''Requirements: '' @ check_mark
                 @ '' All requirements met\<newline>'') []
          else Printf Stdout (''Requirements: '' @ ballot_x
                 @ '' Not met (run 'check' for details)\<newline>'') [],
          Printf Stdout ''\<newline>'' []]"
proof -
  have quiet: "log_lines False messages = []" for messages
    by (simp add: log_lines_def)
  show ?thesis
    by (simp add: cmd_status_def handshake_eq call_def Let_def quiet)
qed

text \<open>
  C3. \<open>cmd_status\<close> returns for every environment and every state, always with exit
  code 0, and what it prints is the whole report: the header, the Installation line, the
  Loading line and the Requirements line, each with the check mark when its sub-check
  succeeded and with the ballot x when it failed (between the Installation and the
  Loading line come the handshake's log lines, when the sink is installed and the flag
  is set; the log lines of the requirement check are never printed).
\<close>

theorem cmd_status_report:
  "fst (cmd_status env st) = 0
   \<and> out (snd (cmd_status env st)) =
       out st
       @ [Printf Stdout ''Status Report:\<newline>'' [],
          Printf Stdout ''\<newline>'' [],
          if is_installed env
          then Printf Stdout (''Installation: '' @ check_mark
                 @ '' Installed at /Library/ScriptingAdditions/mss.osax\<newline>'') []
          else Printf Stdout (''Installation: '' @ ballot_x @ '' Not installed\<newline>'') []]
       @ log_lines (log_sink st \<and> g_verbose st) (logged (mss_handshake env))
       @ [if ret (mss_handshake env) = MSS_SUCCESS env
          then Printf Stdout (''Loading:      '' @ check_mark
                 @ '' Loaded (version %s, %d/%d capabilities)\<newline>'')
                 [Arg_s (handshake_version env),
                  Arg_d (status_cap_loop (handshake_capabilities env) 0 0), Arg_d 7]
          else Printf Stdout (''Loading:      '' @ ballot_x @ '' Not loaded\<newline>'') [],
          if ret (mss_check_requirements env) = MSS_SUCCESS env
          then Printf Stdout (''Requirements: '' @ check_mark
                 @ '' All requirements met\<newline>'') []
          else Printf Stdout (''Requirements: '' @ ballot_x
                 @ '' Not met (run 'check' for details)\<newline>'') [],
          Printf Stdout ''\<newline>'' []]"
  using fst_cmd_status [of env st] out_cmd_status [of env st] by simp

subsection \<open>Exit codes\<close>

lemma fst_cmd_check:
  "fst (cmd_check env st) = (if ret (mss_check_requirements env) = MSS_SUCCESS env then 0 else 1)"
  by (simp add: cmd_check_def call_def Let_def)

lemma fst_cmd_install:
  "fst (cmd_install env st) = (if ret (mss_install env) = MSS_SUCCESS env then 0 else 1)"
  by (simp add: cmd_install_def call_def Let_def)

lemma fst_cmd_load:
  "fst (cmd_load env st) = (if ret (mss_load env) = MSS_SUCCESS env then 0 else 1)"
  by (simp add: cmd_load_def call_def Let_def)

lemma fst_cmd_uninstall:
  "fst (cmd_uninstall env st) = (if ret (mss_uninstall env) = MSS_SUCCESS env then 0 else 1)"
  by (simp add: cmd_uninstall_def call_def Let_def)

lemma fst_test_caps: "fst (test_caps capabilities (n, st)) = n + test_cap_count capabilities"
  by (simp add: test_cap_count_def test_caps_count)

lemma fst_cmd_test:
  "fst (cmd_test env st) =
     (if ret (mss_handshake env) = MSS_SUCCESS env
         \<and> test_cap_count (handshake_capabilities env) = 7 then 0 else 1)"
  by (simp add: cmd_test_def handshake_eq Let_def split_beta fst_test_caps)

lemma fst_dispatch: "fst (dispatch env argv0 command st) = 0 \<or> fst (dispatch env argv0 command st) = 1"
  by (simp add: dispatch_def fst_cmd_check fst_cmd_install fst_cmd_load fst_cmd_uninstall
      fst_cmd_status fst_cmd_test Let_def)

lemma fst_parse_args:
  "fst (parse_args argv0 args command st) = Inl code \<Longrightarrow> code = 0 \<or> code = 1"
  by (induction args arbitrary: command st) (auto split: if_splits)

lemma fst_main: "fst (main env argv0 args st) \<in> {0, 1}"
proof (cases "parse_args argv0 args None st")
  case (Pair r st1)
  show ?thesis
  proof (cases r)
    case (Inl code)
    with Pair fst_parse_args [of argv0 args None st code] show ?thesis
      by (auto simp: main_def)
  next
    case (Inr command)
    show ?thesis
    proof (cases command)
      case None
      with Pair Inr show ?thesis by (simp add: main_def Let_def)
    next
      case (Some c)
      with Pair Inr fst_dispatch [of env argv0 c] show ?thesis
        by (auto simp: main_def Let_def split_beta)
    qed
  qed
qed

lemma main_one_command:
  "take 1 command \<noteq> ''-'' \<Longrightarrow>
   main env argv0 [command] st =
     (let st2 = mss_set_log_callback st;
          st3 = lib_log (snd (mss_create env)) st2
      in if \<not> fst (mss_create env)
         then (1, print_error ''Failed to create context'' [] st3)
         else (fst (dispatch env argv0 command st3),
               lib_log (mss_destroy env) (snd (dispatch env argv0 command st3))))"
  by (auto simp: main_def Let_def split_beta)

text \<open>
  C4 (as the code has it). The handlers of \<open>check\<close>, \<open>install\<close>, \<open>load\<close> and
  \<open>uninstall\<close> return 0 when their library call succeeded and 1 otherwise; the handler
  of \<open>test\<close> returns 0 when the handshake succeeded and the capability count is 7, and 1
  otherwise (so also after a successful handshake with fewer than 7 capabilities); the
  handler of \<open>status\<close> returns 0 whatever its sub-checks report. The program run with one
  of these commands exits with the handler's code when the context was created and with
  1 when it was not; and the exit code of the program is 0 or 1 on every run.
\<close>

theorem exit_codes:
  "fst (cmd_check env st)
     = (if ret (mss_check_requirements env) = MSS_SUCCESS env then 0 else 1)
   \<and> fst (cmd_install env st) = (if ret (mss_install env) = MSS_SUCCESS env then 0 else 1)
   \<and> fst (cmd_load env st) = (if ret (mss_load env) = MSS_SUCCESS env then 0 else 1)
   \<and> fst (cmd_uninstall env st)
     = (if ret (mss_uninstall env) = MSS_SUCCESS env then 0 else 1)
   \<and> fst (cmd_test env st)
     = (if ret (mss_handshake env) = MSS_SUCCESS env
           \<and> test_cap_count (handshake_capabilities env) = 7
        then 0 else 1)
   \<and> fst (cmd_status env st) = 0
   \<and> fst (main env argv0 [''check''] st)
     = (if fst (mss_create env) \<and> ret (mss_check_requirements env) = MSS_SUCCESS env
        then 0 else 1)
   \<and> fst (main env argv0 [''install''] st)
     = (if fst (mss_create env) \<and> ret (mss_install env) = MSS_SUCCESS env then 0 else 1)
   \<and> fst (main env argv0 [''load''] st)
     = (if fst (mss_create env) \<and> ret (mss_load env) = MSS_SUCCESS env then 0 else 1)
   \<and> fst (main env argv0 [''uninstall''] st)
     = (if fst (mss_create env) \<and> ret (mss_uninstall env) = MSS_SUCCESS env then 0 else 1)
   \<and> fst (main env argv0 [''test''] st)
     = (if fst (mss_create env) \<and> ret (mss_handshake env) = MSS_SUCCESS env
           \<and> test_cap_count (handshake_capabilities env) = 7
        then 0 else 1)
   \<and> fst (main env argv0 [''status''] st) = (if fst (mss_create env) then 0 else 1)
   \<and> fst (main env argv0 args st) \<in> {0, 1}"
  using fst_main [of env argv0 args st]
  by (simp add: main_one_command dispatch_def Let_def fst_cmd_check fst_cmd_install
      fst_cmd_load fst_cmd_uninstall fst_cmd_test fst_cmd_status)

subsection \<open>Writes to the process-wide state\<close>

lemma sink_installs_globals:
  "globals st' = globals st \<Longrightarrow> sink_installs st' = sink_installs st"
  by (simp add: sink_installs_def globals_def)

lemma sink_installs_set_g_verbose [simp]:
  "sink_installs (set_g_verbose b st) = sink_installs st"
  by (simp add: sink_installs_def set_g_verbose_def)

lemma sink_installs_parse_args:
  "sink_installs (snd (parse_args argv0 args command st)) = sink_installs st"
proof (induction args arbitrary: command st)
  case Nil
  then show ?case by simp
next
  case (Cons a args)
  have hlp: "sink_installs (print_help argv0 st') = sink_installs st'" for st'
    by (rule sink_installs_globals) simp
  have err: "sink_installs (print_error format fargs st') = sink_installs st'"
    for format fargs st'
    by (rule sink_installs_globals) simp
  show ?case
    by (simp add: Cons.IH hlp err)
qed

lemma sink_installs_dispatch:
  "sink_installs (snd (dispatch env argv0 command st)) = sink_installs st"
proof -
  have status: "sink_installs (snd (cmd_status env st)) = sink_installs st"
    using globals_cmd_status [of env st] by (simp add: sink_installs_def globals_def)
  have other: "sink_installs (print_help argv0 (printf f1 a1 (print_error f2 a2 st)))
      = sink_installs st" for f1 a1 f2 a2
    by (rule sink_installs_globals) simp
  show ?thesis
    by (simp add: dispatch_def Let_def status other
        sink_installs_globals [OF globals_cmd_check]
        sink_installs_globals [OF globals_cmd_install]
        sink_installs_globals [OF globals_cmd_load]
        sink_installs_globals [OF globals_cmd_uninstall]
        sink_installs_globals [OF globals_cmd_test])
qed

lemma sink_installs_print_help [simp]:
  "sink_installs (print_help argv0 st) = sink_installs st"
  by (rule sink_installs_globals) simp

lemma sink_installs_print_error [simp]:
  "sink_installs (print_error format args st) = sink_installs st"
  by (rule sink_installs_globals) simp

lemma sink_installs_printf [simp]:
  "sink_installs (printf format args st) = sink_installs st"
  by (rule sink_installs_globals) simp

lemma sink_installs_lib_log [simp]:
  "sink_installs (lib_log messages st) = sink_installs st"
  by (rule sink_installs_globals) simp

lemma sink_installs_mss_set_log_callback [simp]:
  "sink_installs (mss_set_log_callback st) = Suc (sink_installs st)"
  by (simp add: sink_installs_def mss_set_log_callback_def)

lemma sink_installs_main:
  "sink_installs (snd (main env argv0 args st)) \<le> Suc (sink_installs st)"
proof (cases "parse_args argv0 args None st")
  case (Pair r st1)
  then have st1: "sink_installs st1 = sink_installs st"
    using sink_installs_parse_args [of argv0 args None st] by simp
  show ?thesis
  proof (cases r)
    case (Inl code)
    with Pair st1 show ?thesis by (simp add: main_def)
  next
    case (Inr command)
    with Pair st1 show ?thesis
      by (cases command) (simp_all add: main_def Let_def split_beta sink_installs_dispatch)
  qed
qed

text \<open>
  C1 (as the code has it). The handlers \<open>cmd_check\<close>, \<open>cmd_install\<close>, \<open>cmd_load\<close>,
  \<open>cmd_uninstall\<close> and \<open>cmd_test\<close> write neither the verbose flag nor the log sink.
  \<open>cmd_status\<close> writes the verbose flag twice, first \<open>false\<close> and then the value it had
  on entry, so it returns with the flag as it found it; it does not touch the sink. In a
  run of \<open>main\<close> the log sink is installed at most once.
\<close>

theorem global_writes:
  "globals (snd (cmd_check env st)) = globals st
   \<and> globals (snd (cmd_install env st)) = globals st
   \<and> globals (snd (cmd_load env st)) = globals st
   \<and> globals (snd (cmd_uninstall env st)) = globals st
   \<and> globals (snd (cmd_test env st)) = globals st
   \<and> globals (snd (cmd_status env st))
       = (g_verbose st, log_sink st,
          writes st @ [Write_g_verbose False, Write_g_verbose (g_verbose st)])
   \<and> sink_installs (snd (main env argv0 args initial_state)) \<le> 1"
  using sink_installs_main [of env argv0 args initial_state]
  by (simp add: globals_cmd_check globals_cmd_install globals_cmd_load globals_cmd_uninstall
      globals_cmd_test globals_cmd_status)
     (simp add: sink_installs_def initial_state_def)

subsection \<open>Runs in an environment where nothing is there\<close>

lemma absent_env_simps:
  "MSS_SUCCESS absent_env = 0"
  "stat_osax absent_env = -1"
  "mss_create absent_env = (True, [])"
  "mss_destroy absent_env = []"
  "mss_check_requirements absent_env = \<lparr>ret = -1, logged = [''Not running as root'']\<rparr>"
  "mss_handshake absent_env = \<lparr>ret = -1, logged = []\<rparr>"
  by (simp_all add: absent_env_def)

lemma lib_log_Nil [simp]: "lib_log [] st = st"
  by (simp add: lib_log_def)

lemma main_verbose_command:
  "take 1 command \<noteq> ''-'' \<Longrightarrow>
   main env argv0 [''-v'', command] st =
     (let st2 = mss_set_log_callback (set_g_verbose True st);
          st3 = lib_log (snd (mss_create env)) st2
      in if \<not> fst (mss_create env)
         then (1, print_error ''Failed to create context'' [] st3)
         else (fst (dispatch env argv0 command st3),
               lib_log (mss_destroy env) (snd (dispatch env argv0 command st3))))"
  by (auto simp: main_def Let_def split_beta)

text \<open>
  The run \<open>mss -v status\<close> in an environment where nothing is there: after the flag was
  set by \<open>-v\<close> and the sink installed, \<open>cmd_status\<close> writes the flag two more times;
  and the message the requirement check logs is printed by \<open>mss -v check\<close> but not by
  \<open>mss -v status\<close>, whose check runs with the flag cleared.
\<close>

theorem status_writes_verbose_flag_counterexample:
  "writes (snd (main absent_env ''mss'' [''-v'', ''status''] initial_state))
     = [Write_g_verbose True, Write_log_sink, Write_g_verbose False, Write_g_verbose True]
   \<and> Printf Stdout ''[mss] %s\<newline>'' [Arg_s (Some ''Not running as root'')]
       \<in> set (out (snd (main absent_env ''mss'' [''-v'', ''check''] initial_state)))
   \<and> Printf Stdout ''[mss] %s\<newline>'' [Arg_s (Some ''Not running as root'')]
       \<notin> set (out (snd (main absent_env ''mss'' [''-v'', ''status''] initial_state)))"
proof -
  let ?st = "mss_set_log_callback (set_g_verbose True initial_state)"
  have st: "globals ?st = (True, True, [Write_g_verbose True, Write_log_sink])" "out ?st = []"
    by (simp_all add: initial_state_def set_g_verbose_def)
  then have flags: "g_verbose ?st" "log_sink ?st"
    "writes ?st = [Write_g_verbose True, Write_log_sink]"
    by (simp_all add: globals_def)
  have w: "writes (snd (cmd_status absent_env ?st))
      = [Write_g_verbose True, Write_log_sink, Write_g_verbose False, Write_g_verbose True]"
    using globals_cmd_status [of absent_env ?st] flags by (simp add: globals_def)
  have 1: "writes (snd (main absent_env ''mss'' [''-v'', ''status''] initial_state))
     = [Write_g_verbose True, Write_log_sink, Write_g_verbose False, Write_g_verbose True]"
    using w
    by (simp add: main_verbose_command dispatch_def absent_env_simps Let_def writes_globals)
  have 2: "Printf Stdout ''[mss] %s\<newline>'' [Arg_s (Some ''Not running as root'')]
       \<in> set (out (snd (main absent_env ''mss'' [''-v'', ''check''] initial_state)))"
    using flags st(2)
    by (simp add: main_verbose_command dispatch_def absent_env_simps Let_def cmd_check_def
        call_def log_lines_def)
  have 3: "Printf Stdout ''[mss] %s\<newline>'' [Arg_s (Some ''Not running as root'')]
       \<notin> set (out (snd (main absent_env ''mss'' [''-v'', ''status''] initial_state)))"
    using flags st(2) out_cmd_status [of absent_env ?st]
    by (simp add: main_verbose_command dispatch_def absent_env_simps Let_def
        is_installed_def log_lines_def check_mark_def ballot_x_def)
  from 1 2 3 show ?thesis by blast
qed

text \<open>
  The run \<open>mss status\<close> in the same environment: the report marks all three sub-checks
  as failed, and the exit code is 0.
\<close>

theorem status_exit_code_counterexample:
  "main absent_env ''mss'' [''status''] initial_state =
     (0, \<lparr>g_verbose = False, log_sink = True,
          writes = [Write_log_sink, Write_g_verbose False, Write_g_verbose False],
          out = [Printf Stdout ''Status Report:\<newline>'' [],
                 Printf Stdout ''\<newline>'' [],
                 Printf Stdout (''Installation: '' @ ballot_x @ '' Not installed\<newline>'') [],
                 Printf Stdout (''Loading:      '' @ ballot_x @ '' Not loaded\<newline>'') [],
                 Printf Stdout (''Requirements: '' @ ballot_x
                   @ '' Not met (run 'check' for details)\<newline>'') [],
                 Printf Stdout ''\<newline>'' []]\<rparr>)"
  by (simp add: main_one_command dispatch_def absent_env_simps Let_def cmd_status_def
      handshake_def call_def is_installed_def lib_log_def mss_set_log_callback_def
      initial_state_def printf_def fprintf_def set_g_verbose_def log_callback_def)

end
